theory Spec2Isabelle
  imports Main "HOL-Library.Sublist" "HOL-Library.Char_ord" "HOL-Library.List_Lexorder"
begin

section \<open>Python string operations used by the two scripts\<close>

text \<open>
  A Python \<open>str\<close> is modelled as a \<open>string\<close>; a \<open>char\<close> stands for a code point
  below U+0100. Python orders strings lexicographically by code point, which is the
  order of \<open>HOL-Library.List_Lexorder\<close> over \<open>HOL-Library.Char_ord\<close>.
\<close>

text \<open>\<open>str.isspace\<close> on one character: the code points Python treats as whitespace.\<close>

definition isspace :: "char \<Rightarrow> bool" where
  "isspace c \<longleftrightarrow> c \<in> {CHR 0x09, CHR 0x0A, CHR 0x0B, CHR 0x0C, CHR 0x0D,
                     CHR 0x1C, CHR 0x1D, CHR 0x1E, CHR 0x1F, CHR 0x20, CHR 0x85, CHR 0xA0}"

text \<open>The characters at which \<open>str.splitlines\<close> ends a line.\<close>

definition is_linebreak :: "char \<Rightarrow> bool" where
  "is_linebreak c \<longleftrightarrow> c \<in> {CHR 0x0A, CHR 0x0B, CHR 0x0C, CHR 0x0D,
                          CHR 0x1C, CHR 0x1D, CHR 0x1E, CHR 0x85}"

text \<open>\<open>s.strip()\<close>\<close>

definition strip :: "string \<Rightarrow> string" where
  "strip s = rev (dropWhile isspace (rev (dropWhile isspace s)))"

text \<open>\<open>s.split()\<close>: the maximal runs of non-whitespace characters; \<open>cur\<close> is the run
  being read, reversed.\<close>

fun split_ws_from :: "string \<Rightarrow> string \<Rightarrow> string list" where
  "split_ws_from cur [] = (if cur = [] then [] else [rev cur])"
| "split_ws_from cur (c # cs) =
     (if isspace c
      then (if cur = [] then split_ws_from [] cs else rev cur # split_ws_from [] cs)
      else split_ws_from (c # cur) cs)"

definition split_ws :: "string \<Rightarrow> string list" where
  "split_ws s = split_ws_from [] s"

text \<open>\<open>s.splitlines()\<close>: \<open>\r\n\<close> counts as one line end, and a final line end does
  not open an empty last line.\<close>

fun splitlines_from :: "string \<Rightarrow> string \<Rightarrow> string list" where
  "splitlines_from cur [] = (if cur = [] then [] else [rev cur])"
| "splitlines_from cur [c] =
     (if is_linebreak c then [rev cur] else [rev (c # cur)])"
| "splitlines_from cur (c # d # cs) =
     (if c = CHR 0x0D \<and> d = CHR 0x0A then rev cur # splitlines_from [] cs
      else if is_linebreak c then rev cur # splitlines_from [] (d # cs)
      else splitlines_from (c # cur) (d # cs))"

definition splitlines :: "string \<Rightarrow> string list" where
  "splitlines s = splitlines_from [] s"

text \<open>\<open>s.split(sep)\<close> for a one-character separator: never an empty list.\<close>

fun split_on :: "char \<Rightarrow> string \<Rightarrow> string list" where
  "split_on sep [] = [[]]"
| "split_on sep (c # cs) =
     (if c = sep then [] # split_on sep cs
      else (case split_on sep cs of [] \<Rightarrow> [[c]] | p # ps \<Rightarrow> (c # p) # ps))"

text \<open>\<open>s.split(sep, 1)\<close>: one element when \<open>sep\<close> does not occur, two otherwise.\<close>

fun split_once :: "char \<Rightarrow> string \<Rightarrow> string list" where
  "split_once sep [] = [[]]"
| "split_once sep (c # cs) =
     (if c = sep then [[], cs]
      else (case split_once sep cs of [] \<Rightarrow> [[c]] | p # ps \<Rightarrow> (c # p) # ps))"

text \<open>\<open>needle in hay\<close> on strings: \<open>needle\<close> occurs as a contiguous piece of \<open>hay\<close>.\<close>

fun contains :: "string \<Rightarrow> string \<Rightarrow> bool" where
  "contains needle [] = (needle = [])"
| "contains needle (c # cs) = (prefix needle (c # cs) \<or> contains needle cs)"

text \<open>\<open>sep.join(xs)\<close>\<close>

fun join :: "string \<Rightarrow> string list \<Rightarrow> string" where
  "join sep [] = []"
| "join sep [x] = x"
| "join sep (x # y # ys) = x @ sep @ join sep (y # ys)"

text \<open>\<open>s.lower()\<close>: the cased letters below U+0100 (A to Z, and U+00C0 to U+00DE
  without the multiplication sign U+00D7) move to their lower-case partner.\<close>

definition lower_table :: "(char \<times> char) list" where
  "lower_table =
     zip (''ABCDEFGHIJKLMNOPQRSTUVWXYZ'' @
          [CHR 0xC0, CHR 0xC1, CHR 0xC2, CHR 0xC3, CHR 0xC4, CHR 0xC5, CHR 0xC6, CHR 0xC7,
           CHR 0xC8, CHR 0xC9, CHR 0xCA, CHR 0xCB, CHR 0xCC, CHR 0xCD, CHR 0xCE, CHR 0xCF,
           CHR 0xD0, CHR 0xD1, CHR 0xD2, CHR 0xD3, CHR 0xD4, CHR 0xD5, CHR 0xD6,
           CHR 0xD8, CHR 0xD9, CHR 0xDA, CHR 0xDB, CHR 0xDC, CHR 0xDD, CHR 0xDE])
         (''abcdefghijklmnopqrstuvwxyz'' @
          [CHR 0xE0, CHR 0xE1, CHR 0xE2, CHR 0xE3, CHR 0xE4, CHR 0xE5, CHR 0xE6, CHR 0xE7,
           CHR 0xE8, CHR 0xE9, CHR 0xEA, CHR 0xEB, CHR 0xEC, CHR 0xED, CHR 0xEE, CHR 0xEF,
           CHR 0xF0, CHR 0xF1, CHR 0xF2, CHR 0xF3, CHR 0xF4, CHR 0xF5, CHR 0xF6,
           CHR 0xF8, CHR 0xF9, CHR 0xFA, CHR 0xFB, CHR 0xFC, CHR 0xFD, CHR 0xFE])"

definition lower_char :: "char \<Rightarrow> char" where
  "lower_char c = (case map_of lower_table c of None \<Rightarrow> c | Some l \<Rightarrow> l)"

definition lower :: "string \<Rightarrow> string" where
  "lower s = map lower_char s"

text \<open>The exceptions that the scripts can meet.\<close>

datatype exn =
    IndexError
  | FileNotFoundError
  | FileExistsError
  | NotADirectoryError
  | SameFileError
  | PermissionError
  | OSError
  | CalledProcessError
  | TimeoutExpired
  | UnicodeDecodeError
  | GaiError

text \<open>\<open>xs[i]\<close>: an index past the end raises.\<close>

definition item :: "'a list \<Rightarrow> nat \<Rightarrow> exn + 'a" where
  "item xs i = (if i < length xs then Inr (xs ! i) else Inl IndexError)"

definition tab :: string where
  "tab = [CHR 0x09]"

definition newline :: string where
  "newline = [CHR 0x0A]"


section \<open>The world the scripts run in\<close>

text \<open>
  Everything outside the two scripts is one explicit state:
  \<^item> \<open>installed\<close> answers \<open>shutil.which\<close>;
  \<open>subprocess\<close> gives the outcome of \<open>subprocess.check_output\<close> for an argument
  vector, as a function of the commands run before it (\<open>history\<close>), so that the same
  command may answer differently each time; \<open>Inl\<close> is the exception it raises
  (tool missing, non-zero exit status, timeout, undecodable output);
  \<^item> \<open>getaddrinfo\<close> is \<open>socket.getaddrinfo(domain, None)\<close>, reduced to the host field
  \<open>info[4][0]\<close> of every entry;
  \<^item> \<open>now\<close> is the clock, read through \<open>strftime("%Y%m%d_%H%M%S")\<close>;
  \<^item> \<open>files\<close> maps a path to the text of the regular file it names. A path is the
  list of its parts, and two paths name the same file only when they are equal.
  Directories are not kept: a path names a regular file or nothing, and reading a
  file that is there succeeds;
  \<^item> a call that modifies the file system fails, and changes nothing, when the files
  make it fail (a file where a directory is needed, a copy of a file onto itself, a
  source that is missing) or when the operating system refuses it: \<open>refused\<close> gives
  the error of a refused call (no permission, read-only or full file system);
  \<open>fs_ops\<close> lists the modifying calls that succeeded, in order;
  \<^item> \<open>stdout\<close> and \<open>stderr\<close> hold what was printed, one message per \<open>print\<close>;
  \<^item> \<open>attempts\<close> is a record of the resolver calls made by \<open>resolve_domain\<close>, each with
  the list it returned. It has no counterpart in the source and is never read by
  the model.
\<close>

type_synonym argv = "string list"

type_synonym path = "string list"

datatype attempt =
    Dig string "string list"
  | Nslookup string "string list"
  | System "string list"

datatype fs_op =
    Mkdir path
  | Copy2 path path
  | Write_text path string

datatype msg =
    Error_hosts_not_found path
  | Info_backup_created path
  | Info_removed nat
  | Warn_failed_to_resolve string "string list"
  | Info_dry_run
  | Entry string
  | Info_hosts_updated path
  | Warn_hosts_missing string
  | Ok_match string string
  | Warn_mismatch string string "string list"

record world =
  installed :: "string \<Rightarrow> bool"
  subprocess :: "argv list \<Rightarrow> argv \<Rightarrow> exn + string"
  history :: "argv list"
  attempts :: "attempt list"
  getaddrinfo :: "string \<Rightarrow> exn + string list"
  now :: string
  files :: "path \<rightharpoonup> string"
  refused :: "fs_op \<Rightarrow> exn option"
  fs_ops :: "fs_op list"
  stdout :: "msg list"
  stderr :: "msg list"

definition check_output :: "argv \<Rightarrow> world \<Rightarrow> (exn + string) \<times> world" where
  "check_output args w = (subprocess w (history w) args, w\<lparr>history := history w @ [args]\<rparr>)"

definition print :: "msg \<Rightarrow> world \<Rightarrow> world" where
  "print m w = w\<lparr>stdout := stdout w @ [m]\<rparr>"

definition eprint :: "msg \<Rightarrow> world \<Rightarrow> world" where
  "eprint m w = w\<lparr>stderr := stderr w @ [m]\<rparr>"

definition path_exists :: "path \<Rightarrow> world \<Rightarrow> bool" where
  "path_exists p w \<longleftrightarrow> files w p \<noteq> None"

text \<open>\<open>d.mkdir(parents=True, exist_ok=True)\<close>: a directory that is there already is
  no error, a regular file at \<open>d\<close> or at a path above \<open>d\<close> is.\<close>

definition mkdir :: "path \<Rightarrow> world \<Rightarrow> (exn + unit) \<times> world" where
  "mkdir d w =
     (if list_ex (\<lambda>p. files w p \<noteq> None) (butlast (tl (prefixes d)))
      then (Inl NotADirectoryError, w)
      else if files w d \<noteq> None then (Inl FileExistsError, w)
      else (case refused w (Mkdir d) of
              Some e \<Rightarrow> (Inl e, w)
            | None \<Rightarrow> (Inr (), w\<lparr>fs_ops := fs_ops w @ [Mkdir d]\<rparr>)))"

text \<open>\<open>shutil.copy2(src, dst)\<close>\<close>

definition copy2 :: "path \<Rightarrow> path \<Rightarrow> world \<Rightarrow> (exn + unit) \<times> world" where
  "copy2 src dst w =
     (case files w src of
        None \<Rightarrow> (Inl FileNotFoundError, w)
      | Some text \<Rightarrow>
          if dst = src then (Inl SameFileError, w)
          else (case refused w (Copy2 src dst) of
                  Some e \<Rightarrow> (Inl e, w)
                | None \<Rightarrow>
                    (Inr (), w\<lparr>files := (files w)(dst \<mapsto> text),
                               fs_ops := fs_ops w @ [Copy2 src dst]\<rparr>)))"

definition read_text :: "path \<Rightarrow> world \<Rightarrow> exn + string" where
  "read_text p w = (case files w p of None \<Rightarrow> Inl FileNotFoundError | Some text \<Rightarrow> Inr text)"

definition write_text :: "path \<Rightarrow> string \<Rightarrow> world \<Rightarrow> (exn + unit) \<times> world" where
  "write_text p text w =
     (case refused w (Write_text p text) of
        Some e \<Rightarrow> (Inl e, w)
      | None \<Rightarrow>
          (Inr (), w\<lparr>files := (files w)(p \<mapsto> text),
                     fs_ops := fs_ops w @ [Write_text p text]\<rparr>))"

section \<open>update_steam_hosts.py\<close>

definition STEAM_DOMAINS :: "string list" where
  "STEAM_DOMAINS =
     [''api.steampowered.com'',
      ''steamcommunity.com'',
      ''store.steampowered.com'',
      ''help.steampowered.com'',
      ''login.steampowered.com'',
      ''steamcdn-a.akamaihd.net'',
      ''cdn.cloudflare.steamstatic.com'']"

definition has_cmd :: "string \<Rightarrow> world \<Rightarrow> bool" where
  "has_cmd cmd w = installed w cmd"

subsection \<open>The three resolvers\<close>

definition parse_dig :: "string \<Rightarrow> string list" where
  "parse_dig out =
     [strip line. line \<leftarrow> splitlines out, strip line \<noteq> [] \<and> \<not> contains '':'' line]"

definition resolve_with_dig :: "string \<Rightarrow> string \<Rightarrow> world \<Rightarrow> (exn + string list) \<times> world" where
  "resolve_with_dig domain dns w =
     (if \<not> has_cmd ''dig'' w then (Inr [], w)
      else (case check_output [''dig'', ''@'' @ dns, ''+short'', domain] w of
              (Inl e, w') \<Rightarrow> (Inr [], w')
            | (Inr out, w') \<Rightarrow> (Inr (parse_dig out), w')))"

text \<open>The loop of \<open>resolve_with_nslookup\<close>; \<open>line.split(":", 1)[1]\<close> is the one place
  outside a \<open>try\<close> that indexes a list.\<close>

fun nslookup_loop :: "string list \<Rightarrow> string list \<Rightarrow> exn + string list" where
  "nslookup_loop [] ips = Inr ips"
| "nslookup_loop (raw # lines) ips =
     (let line = strip raw in
      if prefix ''address:'' (lower line)
      then (case item (split_once (CHR '':'') line) 1 of
              Inl e \<Rightarrow> Inl e
            | Inr rest \<Rightarrow>
                (let ip = strip rest in
                 if ip \<noteq> [] \<and> \<not> contains '':'' ip
                 then nslookup_loop lines (ips @ [ip])
                 else nslookup_loop lines ips))
      else nslookup_loop lines ips)"

definition resolve_with_nslookup ::
  "string \<Rightarrow> string \<Rightarrow> world \<Rightarrow> (exn + string list) \<times> world" where
  "resolve_with_nslookup domain dns w =
     (if \<not> has_cmd ''nslookup'' w then (Inr [], w)
      else (case check_output [''nslookup'', domain, dns] w of
              (Inl e, w') \<Rightarrow> (Inr [], w')
            | (Inr out, w') \<Rightarrow> (nslookup_loop (splitlines out) [], w')))"

fun getent_loop :: "string list \<Rightarrow> string list \<Rightarrow> string list" where
  "getent_loop [] ips = ips"
| "getent_loop (line # lines) ips =
     (case split_ws line of
        [] \<Rightarrow> getent_loop lines ips
      | p # _ \<Rightarrow>
          if contains ''.'' p then getent_loop lines (ips @ [p]) else getent_loop lines ips)"

text \<open>The whole body of \<open>resolve_system\<close> is inside \<open>try\<close>; \<open>except Exception\<close> turns
  whatever it raises into the empty list.\<close>

definition resolve_system_try :: "string \<Rightarrow> world \<Rightarrow> (exn + string list) \<times> world" where
  "resolve_system_try domain w =
     (case check_output [''getent'', ''ahosts'', domain] w of
        (Inl e, w') \<Rightarrow> (Inl e, w')
      | (Inr out, w') \<Rightarrow> (Inr (sort (remdups (getent_loop (splitlines out) []))), w'))"

definition resolve_system :: "string \<Rightarrow> world \<Rightarrow> (exn + string list) \<times> world" where
  "resolve_system domain w =
     (case resolve_system_try domain w of
        (Inl e, w') \<Rightarrow> (Inr [], w')
      | (Inr ips, w') \<Rightarrow> (Inr ips, w'))"

subsection \<open>The resolution chain\<close>

definition noted ::
  "(string list \<Rightarrow> attempt) \<Rightarrow> (exn + string list) \<times> world \<Rightarrow> (exn + string list) \<times> world" where
  "noted mk r =
     (case r of
        (Inl e, w) \<Rightarrow> (Inl e, w)
      | (Inr ips, w) \<Rightarrow> (Inr ips, w\<lparr>attempts := attempts w @ [mk ips]\<rparr>))"

fun resolve_domain :: "string \<Rightarrow> string list \<Rightarrow> world \<Rightarrow> (exn + string list) \<times> world" where
  "resolve_domain domain [] w =
     (case noted System (resolve_system domain w) of
        (Inl e, w1) \<Rightarrow> (Inl e, w1)
      | (Inr ips, w1) \<Rightarrow> (Inr (sort (remdups ips)), w1))"
| "resolve_domain domain (dns # rest) w =
     (case noted (Dig dns) (resolve_with_dig domain dns w) of
        (Inl e, w1) \<Rightarrow> (Inl e, w1)
      | (Inr ips, w1) \<Rightarrow>
          (case (if ips = [] then noted (Nslookup dns) (resolve_with_nslookup domain dns w1)
                 else (Inr ips, w1)) of
             (Inl e, w2) \<Rightarrow> (Inl e, w2)
           | (Inr ips2, w2) \<Rightarrow>
               if ips2 \<noteq> [] then (Inr (sort (remdups ips2)), w2)
               else resolve_domain domain rest w2))"

subsection \<open>The updater's \<open>main\<close>\<close>

text \<open>The parsed command line: \<open>--hosts\<close>, \<open>--backup-dir\<close>, \<open>--dns\<close> and \<open>--dry-run\<close>.\<close>

record args =
  hosts_path :: path
  backup_dir :: path
  dns_servers :: string
  dry_run :: bool

text \<open>\<open>any(f" {d}" in f" {stripped} " for d in STEAM_DOMAINS)\<close>\<close>

definition is_steam :: "string \<Rightarrow> bool" where
  "is_steam stripped =
     list_ex (\<lambda>d. contains ('' '' @ d) ('' '' @ stripped @ '' '')) STEAM_DOMAINS"

text \<open>The filter loop over the lines of the hosts file, with its two accumulators.\<close>

fun filter_loop :: "string list \<Rightarrow> string list \<Rightarrow> nat \<Rightarrow> string list \<times> nat" where
  "filter_loop [] filtered removed = (filtered, removed)"
| "filter_loop (line # lines) filtered removed =
     (let stripped = strip line in
      if stripped = [] \<or> prefix ''#'' stripped
      then filter_loop lines (filtered @ [line]) removed
      else if is_steam stripped
           then filter_loop lines filtered (removed + 1)
           else filter_loop lines (filtered @ [line]) removed)"

definition filter_hosts :: "string \<Rightarrow> string list \<times> nat" where
  "filter_hosts content = filter_loop (splitlines content) [] 0"

text \<open>The loop that resolves every managed domain and collects the entry lines.\<close>

fun resolve_entries ::
  "string list \<Rightarrow> string list \<Rightarrow> string list \<Rightarrow> world \<Rightarrow> (exn + string list) \<times> world" where
  "resolve_entries [] servers new_entries w = (Inr new_entries, w)"
| "resolve_entries (domain # domains) servers new_entries w =
     (case resolve_domain domain servers w of
        (Inl e, w1) \<Rightarrow> (Inl e, w1)
      | (Inr ips, w1) \<Rightarrow>
          if ips = []
          then resolve_entries domains servers new_entries
                 (print (Warn_failed_to_resolve domain servers) w1)
          else resolve_entries domains servers
                 (new_entries @ map (\<lambda>ip. ip @ tab @ domain) ips) w1)"

definition header :: "string \<Rightarrow> string" where
  "header ts = ''# === Steam hosts (auto-generated) '' @ ts @ '' ===''"

definition footer :: string where
  "footer = ''# === End Steam hosts ===''"

definition backup_name :: "string \<Rightarrow> string" where
  "backup_name ts = ''hosts_'' @ ts @ ''.bak''"

text \<open>\<open>[x.strip() for x in args.dns_servers.split(",") if x.strip()]\<close>\<close>

definition parse_dns :: "string \<Rightarrow> string list" where
  "parse_dns s = [strip x. x \<leftarrow> split_on (CHR '','') s, strip x \<noteq> []]"

definition main :: "args \<Rightarrow> world \<Rightarrow> (exn + int) \<times> world" where
  "main a w =
     (let servers = parse_dns (dns_servers a) in
      if \<not> path_exists (hosts_path a) w
      then (Inr 1, eprint (Error_hosts_not_found (hosts_path a)) w)
      else
        case mkdir (backup_dir a) w of
          (Inl e, w1) \<Rightarrow> (Inl e, w1)
        | (Inr _, w1) \<Rightarrow>
        let ts = now w1;
            backup_path = backup_dir a @ [backup_name ts]
        in case copy2 (hosts_path a) backup_path w1 of
             (Inl e, w2) \<Rightarrow> (Inl e, w2)
           | (Inr _, w2) \<Rightarrow>
               let w3 = print (Info_backup_created backup_path) w2
               in case read_text (hosts_path a) w3 of
                    Inl e \<Rightarrow> (Inl e, w3)
                  | Inr content \<Rightarrow>
                      let (filtered, removed) = filter_hosts content;
                          w4 = print (Info_removed removed) w3
                      in case resolve_entries STEAM_DOMAINS servers [] w4 of
                           (Inl e, w5) \<Rightarrow> (Inl e, w5)
                         | (Inr new_entries, w5) \<Rightarrow>
                             let final_lines = filtered @ [header ts] @ new_entries @ [footer]
                             in if dry_run a
                                then (Inr 0, foldl (\<lambda>w line. print (Entry line) w)
                                               (print Info_dry_run w5) new_entries)
                                else case write_text (hosts_path a)
                                            (join newline final_lines @ newline) w5 of
                                       (Inl e, w6) \<Rightarrow> (Inl e, w6)
                                     | (Inr _, w6) \<Rightarrow>
                                         (Inr 0, print (Info_hosts_updated (hosts_path a)) w6))"

section \<open>verify_steam_hosts.py\<close>



definition system_resolve :: "string \<Rightarrow> world \<Rightarrow> string list" where
  "system_resolve domain w =
     (case getaddrinfo w domain of
        Inl e \<Rightarrow> []
      | Inr infos \<Rightarrow> sort (remdups [ip. ip \<leftarrow> infos, \<not> contains '':'' ip]))"



section \<open>Notions of the specification\<close>

text \<open>A line the filter must leave alone: blank, or a comment once stripped.\<close>

definition passes_through :: "string \<Rightarrow> bool" where
  "passes_through line \<longleftrightarrow> strip line = [] \<or> prefix ''#'' (strip line)"

text \<open>A line that holds a managed domain as one of its whitespace-delimited tokens.\<close>

definition has_managed_token :: "string \<Rightarrow> bool" where
  "has_managed_token line = list_ex (\<lambda>t. t \<in> set STEAM_DOMAINS) (split_ws line)"

text \<open>What the filter loop drops, read off its two tests.\<close>

definition dropped :: "string \<Rightarrow> bool" where
  "dropped line \<longleftrightarrow> \<not> passes_through line \<and> is_steam (strip line)"

text \<open>The attempts of the chain on servers that all gave nothing: for each, the
  \<open>dig\<close> resolver and then the \<open>nslookup\<close> resolver, both empty.\<close>

definition fruitless :: "string list \<Rightarrow> attempt list" where
  "fruitless servers = concat (map (\<lambda>s. [Dig s [], Nslookup s []]) servers)"

text \<open>
  The chain as the specification words it, for the attempts \<open>made\<close> on \<open>servers\<close>
  and the list \<open>r\<close> the chain goes on with. Some first servers \<open>pre\<close> gave nothing.
  Then either no server is left and the system resolver was called, once, giving \<open>r\<close>;
  or the next server \<open>s\<close> gave the non-empty \<open>r\<close>, from \<open>dig\<close>, or from \<open>nslookup\<close>
  after an empty \<open>dig\<close>, and nothing was attempted after it.
\<close>

definition chain_outcome :: "string list \<Rightarrow> attempt list \<Rightarrow> string list \<Rightarrow> bool" where
  "chain_outcome servers made r \<longleftrightarrow>
     (\<exists>pre rest tail.
        servers = pre @ rest \<and> made = fruitless pre @ tail \<and>
        (rest = [] \<and> tail = [System r]
         \<or> (\<exists>s post. rest = s # post \<and> r \<noteq> [] \<and>
               (tail = [Dig s r] \<or> tail = [Dig s [], Nslookup s r]))))"

text \<open>The commands an attempt for \<open>domain\<close> launches: none when its tool is not
  installed.\<close>

definition launched :: "world \<Rightarrow> string \<Rightarrow> attempt \<Rightarrow> argv list" where
  "launched w domain at =
     (case at of
        Dig dns r \<Rightarrow>
          if installed w ''dig'' then [[''dig'', ''@'' @ dns, ''+short'', domain]] else []
      | Nslookup dns r \<Rightarrow>
          if installed w ''nslookup'' then [[''nslookup'', domain, dns]] else []
      | System r \<Rightarrow> [[''getent'', ''ahosts'', domain]])"

text \<open>The world once the attempts \<open>made\<close> for \<open>domain\<close> are over: their commands
  have run, in order, and the attempts are on record.\<close>

definition after :: "world \<Rightarrow> string \<Rightarrow> attempt list \<Rightarrow> world" where
  "after w domain made =
     w\<lparr>history := history w @ concat (map (launched w domain) made),
       attempts := attempts w @ made\<rparr>"





text \<open>Two worlds that answer every resolver alike: the same tools, the same outcomes
  of commands, the same commands run so far.\<close>

definition same_env :: "world \<Rightarrow> world \<Rightarrow> bool" where
  "same_env w v \<longleftrightarrow>
     installed w = installed v \<and> subprocess w = subprocess v \<and> history w = history v"



definition copy2_succeeds :: "path \<Rightarrow> path \<Rightarrow> world \<Rightarrow> bool" where
  "copy2_succeeds src dst w \<longleftrightarrow>
     files w src \<noteq> None \<and> dst \<noteq> src \<and> refused w (Copy2 src dst) = None"


subsection \<open>Worlds to run the scripts in\<close>

text \<open>A machine without resolver tools and without a network, holding a hosts file
  of one line; the operating system refuses no call.\<close>

definition offline_world :: world where
  "offline_world =
     \<lparr>installed = (\<lambda>cmd. False),
      subprocess = (\<lambda>h args. Inl FileNotFoundError),
      history = [],
      attempts = [],
      getaddrinfo = (\<lambda>domain. Inl GaiError),
      now = ''20260101_120000'',
      files = [[''etc'', ''hosts''] \<mapsto> ''127.0.0.1 localhost'' @ newline],
      refused = (\<lambda>call. None),
      fs_ops = [],
      stdout = [],
      stderr = []\<rparr>"

text \<open>The same machine with \<open>getent\<close>, whose hosts database gives the first managed
  domain an IPv4-mapped IPv6 address.\<close>

definition mapped_world :: world where
  "mapped_world =
     offline_world
       \<lparr>subprocess := (\<lambda>h args.
          if args = [''getent'', ''ahosts'', ''api.steampowered.com'']
          then Inr (''::ffff:203.0.113.5 STREAM api.steampowered.com'' @ newline @
                    ''::ffff:203.0.113.5 DGRAM'' @ newline @
                    ''::ffff:203.0.113.5 RAW'' @ newline)
          else Inl CalledProcessError)\<rparr>"


text \<open>A machine with \<open>dig\<close>, on which the first server knows one managed domain.\<close>

definition dig_world :: world where
  "dig_world =
     offline_world
       \<lparr>installed := (\<lambda>cmd. cmd = ''dig''),
        subprocess := (\<lambda>h args.
          if args = [''dig'', ''@8.8.8.8'', ''+short'', ''steamcommunity.com'']
          then Inr (''203.0.113.5'' @ newline)
          else Inl CalledProcessError)\<rparr>"

text \<open>The updater's command line with its default servers, and the same with
  \<open>--dry-run\<close>.\<close>

definition update_args :: args where
  "update_args =
     \<lparr>hosts_path = [''etc'', ''hosts''],
      backup_dir = [''hosts_backup''],
      dns_servers = ''8.8.8.8,1.1.1.1'',
      dry_run = False\<rparr>"






text \<open>A machine with \<open>dig\<close>, on which the first server answers with a web page and
  exit status 0.\<close>

definition gateway_world :: world where
  "gateway_world =
     offline_world
       \<lparr>installed := (\<lambda>cmd. cmd = ''dig''),
        subprocess := (\<lambda>h args.
          if args = [''dig'', ''@8.8.8.8'', ''+short'', ''steamcommunity.com'']
          then Inr (''<html>502 Bad Gateway</html>'' @ newline)
          else Inl CalledProcessError)\<rparr>"

section \<open>The hosts-file filter\<close>

lemma filter_loop_eq:
  "filter_loop lines filtered removed =
     (filtered @ filter (\<lambda>l. \<not> dropped l) lines, removed + length (filter dropped lines))"
  by (induction lines arbitrary: filtered removed)
     (auto simp: Let_def dropped_def passes_through_def)

lemma filter_hosts_eq:
  "filter_hosts content =
     (filter (\<lambda>l. \<not> dropped l) (splitlines content), length (filter dropped (splitlines content)))"
  by (simp add: filter_hosts_def filter_loop_eq)

lemma kept_passes_through:
  "filter passes_through (filter (\<lambda>l. \<not> dropped l) lines) = filter passes_through lines"
  by (induction lines) (auto simp: dropped_def)

lemma kept_others:
  "length (filter (\<lambda>l. \<not> passes_through l) lines) =
     length (filter (\<lambda>l. \<not> passes_through l) (filter (\<lambda>l. \<not> dropped l) lines))
       + length (filter dropped lines)"
  by (induction lines) (auto simp: dropped_def)

text \<open>
  C8. Whatever the hosts file holds, its blank lines and comment lines are all in the
  filter's output, unchanged and in their order, and the removed count is exactly the
  number of other lines that are missing from the output: a blank or comment line is
  never counted, whatever its text.
\<close>

theorem comments_and_blanks_pass_through:
  "filter passes_through (fst (filter_hosts content))
     = filter passes_through (splitlines content)
   \<and> length (filter (\<lambda>l. \<not> passes_through l) (splitlines content))
     = length (filter (\<lambda>l. \<not> passes_through l) (fst (filter_hosts content)))
         + snd (filter_hosts content)"
  using kept_passes_through [of "splitlines content"] kept_others [of "splitlines content"]
  by (simp add: filter_hosts_eq)

text \<open>
  C1. The filter does not decide by tokens. A line whose address and domain are
  separated by a tab holds the managed domain as a token and is kept, with nothing
  counted; a line whose host name only starts with a managed domain holds no managed
  token and is removed and counted.
\<close>

theorem filter_is_not_a_token_match:
  "has_managed_token (''1.2.3.4'' @ tab @ ''steamcommunity.com'')
   \<and> filter_hosts (''1.2.3.4'' @ tab @ ''steamcommunity.com'')
       = ([''1.2.3.4'' @ tab @ ''steamcommunity.com''], 0)
   \<and> \<not> has_managed_token ''1.2.3.4 steamcommunity.com.evil.example''
   \<and> filter_hosts ''1.2.3.4 steamcommunity.com.evil.example'' = ([], 1)"
  by code_simp

section \<open>The resolvers\<close>

lemma lower_char_colon: "lower_char c = CHR '':'' \<Longrightarrow> c = CHR '':''"
  by (auto simp: lower_char_def lower_table_def split: if_splits)

lemma prefix_address_colon:
  assumes "prefix ''address:'' (lower line)"
  shows "CHR '':'' \<in> set line"
proof -
  from assms obtain rest where "lower line = ''address:'' @ rest"
    by (auto simp: prefix_def)
  then have "CHR '':'' \<in> set (lower line)" by simp
  then obtain c where "c \<in> set line" "lower_char c = CHR '':''"
    by (auto simp: lower_def)
  then show ?thesis using lower_char_colon by blast
qed

lemma split_once_length: "sep \<in> set s \<Longrightarrow> length (split_once sep s) = 2"
proof (induction s)
  case Nil then show ?case by simp
next
  case (Cons c cs)
  show ?case
  proof (cases "c = sep")
    case True then show ?thesis by simp
  next
    case False
    with Cons have "length (split_once sep cs) = 2" by simp
    then obtain p q where "split_once sep cs = [p, q]"
      by (cases "split_once sep cs") (auto simp: length_Suc_conv)
    with False show ?thesis by simp
  qed
qed

lemma item_address:
  "prefix ''address:'' (lower line) \<Longrightarrow> \<exists>rest. item (split_once (CHR '':'') line) 1 = Inr rest"
  using split_once_length [OF prefix_address_colon] by (simp add: item_def)

lemma nslookup_loop_returns: "\<exists>r. nslookup_loop lines ips = Inr r"
proof (induction lines arbitrary: ips)
  case Nil then show ?case by simp
next
  case (Cons raw lines)
  show ?case
  proof (cases "prefix ''address:'' (lower (strip raw))")
    case True
    from item_address [OF True] obtain rest
      where "item (split_once (CHR '':'') (strip raw)) 1 = Inr rest" by blast
    with True Cons show ?thesis by (simp add: Let_def)
  next
    case False
    with Cons show ?thesis by (simp add: Let_def)
  qed
qed

lemma launched_frame [simp]:
  "launched (w\<lparr>history := h\<rparr>) domain = launched w domain"
  "launched (w\<lparr>attempts := at\<rparr>) domain = launched w domain"
  by (rule ext, simp add: launched_def split: attempt.splits)+

lemma resolve_with_dig_frame:
  "\<exists>r. resolve_with_dig domain dns w
         = (Inr r, w\<lparr>history := history w @ launched w domain (Dig dns r)\<rparr>)"
  by (auto simp: resolve_with_dig_def has_cmd_def check_output_def launched_def split: sum.splits)

lemma resolve_with_nslookup_frame:
  "\<exists>r. resolve_with_nslookup domain dns w
         = (Inr r, w\<lparr>history := history w @ launched w domain (Nslookup dns r)\<rparr>)"
  using nslookup_loop_returns
  by (auto simp: resolve_with_nslookup_def has_cmd_def check_output_def launched_def
           split: sum.splits)

lemma resolve_system_frame:
  "\<exists>r. resolve_system domain w
         = (Inr r, w\<lparr>history := history w @ launched w domain (System r)\<rparr>)"
  by (auto simp: resolve_system_def resolve_system_try_def check_output_def launched_def
           split: sum.splits)

lemma chain_outcome_skip:
  assumes "chain_outcome servers made r"
  shows "chain_outcome (s # servers) (Dig s [] # Nslookup s [] # made) r"
proof -
  from assms obtain pre rest tail where
    *: "servers = pre @ rest" "made = fruitless pre @ tail"
       "rest = [] \<and> tail = [System r]
         \<or> (\<exists>s post. rest = s # post \<and> r \<noteq> [] \<and>
               (tail = [Dig s r] \<or> tail = [Dig s [], Nslookup s r]))"
    unfolding chain_outcome_def by blast
  have "s # servers = (s # pre) @ rest" using * by simp
  moreover have "Dig s [] # Nslookup s [] # made = fruitless (s # pre) @ tail"
    using * by (simp add: fruitless_def)
  ultimately show ?thesis unfolding chain_outcome_def using *(3) by blast
qed

lemma chain_outcome_dig:
  "r \<noteq> [] \<Longrightarrow> chain_outcome (s # post) [Dig s r] r"
  unfolding chain_outcome_def
  by (rule exI [of _ "[]"], rule exI [of _ "s # post"], rule exI [of _ "[Dig s r]"])
     (simp add: fruitless_def)

lemma chain_outcome_nslookup:
  "r \<noteq> [] \<Longrightarrow> chain_outcome (s # post) [Dig s [], Nslookup s r] r"
  unfolding chain_outcome_def
  by (rule exI [of _ "[]"], rule exI [of _ "s # post"], rule exI [of _ "[Dig s [], Nslookup s r]"])
     (simp add: fruitless_def)

lemma chain_outcome_system: "chain_outcome [] [System r] r"
  unfolding chain_outcome_def
  by (rule exI [of _ "[]"], rule exI [of _ "[]"], rule exI [of _ "[System r]"])
     (simp add: fruitless_def)

lemma after_after:
  "after (after w domain xs) domain ys = after w domain (xs @ ys)"
  by (simp add: after_def)

lemma resolve_domain_chain:
  "\<exists>r made. resolve_domain domain servers w = (Inr (sort (remdups r)), after w domain made)
      \<and> chain_outcome servers made r"
proof (induction servers arbitrary: w)
  case Nil
  obtain r where "resolve_system domain w
      = (Inr r, w\<lparr>history := history w @ launched w domain (System r)\<rparr>)"
    using resolve_system_frame by blast
  then have "resolve_domain domain [] w = (Inr (sort (remdups r)), after w domain [System r])"
    by (simp add: noted_def after_def)
  then show ?case using chain_outcome_system by blast
next
  case (Cons dns rest)
  obtain r1 where dig: "resolve_with_dig domain dns w
      = (Inr r1, w\<lparr>history := history w @ launched w domain (Dig dns r1)\<rparr>)"
    using resolve_with_dig_frame by blast
  let ?w1 = "after w domain [Dig dns r1]"
  have noted1: "noted (Dig dns) (resolve_with_dig domain dns w) = (Inr r1, ?w1)"
    using dig by (simp add: noted_def after_def)
  show ?case
  proof (cases "r1 = []")
    case False
    then have "resolve_domain domain (dns # rest) w = (Inr (sort (remdups r1)), ?w1)"
      using noted1 by simp
    then show ?thesis using chain_outcome_dig [OF False] by blast
  next
    case True
    obtain r2 where ns: "resolve_with_nslookup domain dns ?w1
        = (Inr r2, ?w1\<lparr>history := history ?w1 @ launched ?w1 domain (Nslookup dns r2)\<rparr>)"
      using resolve_with_nslookup_frame by blast
    let ?w2 = "after w domain [Dig dns [], Nslookup dns r2]"
    have noted2: "noted (Nslookup dns) (resolve_with_nslookup domain dns ?w1) = (Inr r2, ?w2)"
      using ns True by (simp add: noted_def after_def)
    show ?thesis
    proof (cases "r2 = []")
      case False
      have "resolve_domain domain (dns # rest) w = (Inr (sort (remdups r2)), ?w2)"
        using noted1 noted2 True False by simp
      then show ?thesis using chain_outcome_nslookup [OF False] by blast
    next
      case empty: True
      have step: "resolve_domain domain (dns # rest) w = resolve_domain domain rest ?w2"
        using noted1 noted2 True empty by simp
      from Cons [of ?w2] obtain r made where
        rec: "resolve_domain domain rest ?w2 = (Inr (sort (remdups r)), after ?w2 domain made)"
          "chain_outcome rest made r"
        by blast
      have "after ?w2 domain made = after w domain (Dig dns [] # Nslookup dns [] # made)"
        using empty by (simp add: after_after)
      then show ?thesis
        using step rec(1) chain_outcome_skip [OF rec(2)] by metis
    qed
  qed
qed


lemma resolve_domain_frame:
  "\<exists>r h at. resolve_domain domain servers w = (Inr r, w\<lparr>history := h, attempts := at\<rparr>)"
  using resolve_domain_chain [of domain servers w] unfolding after_def by blast

lemma dig_failure_is_empty:
  "\<not> installed w ''dig'' \<or> isl (subprocess w (history w) [''dig'', ''@'' @ dns, ''+short'', domain])
     \<Longrightarrow> fst (resolve_with_dig domain dns w) = Inr []"
  by (auto simp: resolve_with_dig_def has_cmd_def check_output_def split: sum.splits)

lemma nslookup_failure_is_empty:
  "\<not> installed w ''nslookup'' \<or> isl (subprocess w (history w) [''nslookup'', domain, dns])
     \<Longrightarrow> fst (resolve_with_nslookup domain dns w) = Inr []"
  by (auto simp: resolve_with_nslookup_def has_cmd_def check_output_def split: sum.splits)

lemma getent_failure_is_empty:
  "isl (subprocess w (history w) [''getent'', ''ahosts'', domain])
     \<Longrightarrow> fst (resolve_system domain w) = Inr []"
  by (auto simp: resolve_system_def resolve_system_try_def check_output_def split: sum.splits)

lemma all_failures_are_empty:
  "\<forall>h args. isl (subprocess w h args) \<Longrightarrow> fst (resolve_domain domain servers w) = Inr []"
proof (induction servers arbitrary: w)
  case Nil
  obtain r where sys: "resolve_system domain w
      = (Inr r, w\<lparr>history := history w @ launched w domain (System r)\<rparr>)"
    using resolve_system_frame by blast
  moreover have "fst (resolve_system domain w) = Inr []"
    using Nil getent_failure_is_empty by blast
  ultimately show ?case by (simp add: noted_def)
next
  case (Cons dns rest)
  obtain r1 where dig: "resolve_with_dig domain dns w
      = (Inr r1, w\<lparr>history := history w @ launched w domain (Dig dns r1)\<rparr>)"
    using resolve_with_dig_frame by blast
  have r1: "r1 = []" using dig dig_failure_is_empty [of w dns domain] Cons.prems by simp
  let ?w1 = "after w domain [Dig dns r1]"
  have noted1: "noted (Dig dns) (resolve_with_dig domain dns w) = (Inr r1, ?w1)"
    using dig by (simp add: noted_def after_def)
  obtain r2 where ns: "resolve_with_nslookup domain dns ?w1
      = (Inr r2, ?w1\<lparr>history := history ?w1 @ launched ?w1 domain (Nslookup dns r2)\<rparr>)"
    using resolve_with_nslookup_frame by blast
  have r2: "r2 = []"
    using ns nslookup_failure_is_empty [of ?w1 domain dns] Cons.prems by (simp add: after_def)
  let ?w2 = "after w domain [Dig dns r1, Nslookup dns r2]"
  have noted2: "noted (Nslookup dns) (resolve_with_nslookup domain dns ?w1) = (Inr r2, ?w2)"
    using ns by (simp add: noted_def after_def)
  have "fst (resolve_domain domain rest ?w2) = Inr []"
    using Cons.IH [of ?w2] Cons.prems by (simp add: after_def)
  then show ?case using noted1 noted2 r1 r2 by simp
qed

text \<open>An answer without addresses gives the empty list in each resolver.\<close>

lemma empty_output_is_empty:
  "parse_dig [] = [] \<and> nslookup_loop (splitlines []) [] = Inr []
   \<and> getent_loop (splitlines []) [] = []"
  by (simp add: parse_dig_def splitlines_def)

text \<open>
  C6. Whatever the external tools do, each of the three resolvers and the whole chain
  return a list and raise nothing. A tool that is not installed and a command that
  raises (tool missing, non-zero status, timeout, undecodable output) give the empty
  list, the value of an answer without addresses; when every command raises, the
  chain returns the empty list. Output that is not a list of addresses is no such
  failure: what the resolvers read from it is returned.
\<close>

theorem resolution_never_raises:
  "\<not> isl (fst (resolve_with_dig domain dns w))
   \<and> \<not> isl (fst (resolve_with_nslookup domain dns w))
   \<and> \<not> isl (fst (resolve_system domain w))
   \<and> \<not> isl (fst (resolve_domain domain servers w))
   \<and> (\<not> installed w ''dig''
        \<or> isl (subprocess w (history w) [''dig'', ''@'' @ dns, ''+short'', domain])
      \<longrightarrow> fst (resolve_with_dig domain dns w) = Inr [])
   \<and> (\<not> installed w ''nslookup''
        \<or> isl (subprocess w (history w) [''nslookup'', domain, dns])
      \<longrightarrow> fst (resolve_with_nslookup domain dns w) = Inr [])
   \<and> (isl (subprocess w (history w) [''getent'', ''ahosts'', domain])
      \<longrightarrow> fst (resolve_system domain w) = Inr [])
   \<and> ((\<forall>h args. isl (subprocess w h args))
      \<longrightarrow> fst (resolve_domain domain servers w) = Inr [])"
proof -
  have "\<not> isl (fst (resolve_with_dig domain dns w))"
    using resolve_with_dig_frame [of domain dns w] by auto
  moreover have "\<not> isl (fst (resolve_with_nslookup domain dns w))"
    using resolve_with_nslookup_frame [of domain dns w] by auto
  moreover have "\<not> isl (fst (resolve_system domain w))"
    using resolve_system_frame [of domain w] by auto
  moreover have "\<not> isl (fst (resolve_domain domain servers w))"
    using resolve_domain_frame [of domain servers w] by auto
  ultimately show ?thesis
    using dig_failure_is_empty [of w dns domain] nslookup_failure_is_empty [of w domain dns]
      getent_failure_is_empty [of w domain] all_failures_are_empty [of w domain servers]
    by blast
qed

theorem resolution_never_raises_witness:
  "\<not> installed offline_world ''dig''
   \<and> fst (resolve_with_dig ''steamcommunity.com'' ''8.8.8.8'' offline_world) = Inr []
   \<and> \<not> installed offline_world ''nslookup''
   \<and> fst (resolve_with_nslookup ''steamcommunity.com'' ''8.8.8.8'' offline_world) = Inr []
   \<and> isl (subprocess offline_world (history offline_world)
            [''getent'', ''ahosts'', ''steamcommunity.com''])
   \<and> fst (resolve_system ''steamcommunity.com'' offline_world) = Inr []
   \<and> (\<forall>h args. isl (subprocess offline_world h args))
   \<and> fst (resolve_domain ''steamcommunity.com'' [''8.8.8.8'', ''1.1.1.1''] offline_world) = Inr []"
  using resolution_never_raises
    [of "''steamcommunity.com''" "''8.8.8.8''" offline_world "[''8.8.8.8'', ''1.1.1.1'']"]
  by (simp add: offline_world_def)

theorem malformed_answer_is_returned:
  "installed gateway_world ''dig''
   \<and> subprocess gateway_world (history gateway_world)
        [''dig'', ''@8.8.8.8'', ''+short'', ''steamcommunity.com'']
       = Inr (''<html>502 Bad Gateway</html>'' @ newline)
   \<and> fst (resolve_with_dig ''steamcommunity.com'' ''8.8.8.8'' gateway_world)
       = Inr [''<html>502 Bad Gateway</html>'']
   \<and> fst (resolve_domain ''steamcommunity.com'' [''8.8.8.8'', ''1.1.1.1''] gateway_world)
       = Inr [''<html>502 Bad Gateway</html>'']"
  by code_simp


text \<open>What does hold of the chain's result: it is sorted and without duplicates; the
  \<open>dig\<close> and \<open>nslookup\<close> resolvers return no string with a colon; so a colon in the
  chain's result can only come from the system resolver.\<close>

lemma contains_char: "contains [c] s \<longleftrightarrow> c \<in> set s"
  by (induction s) auto

lemma set_strip: "set (strip s) \<subseteq> set s"
proof -
  have "set (strip s) \<subseteq> set (dropWhile isspace s)"
    unfolding strip_def using set_dropWhileD [of _ isspace "rev (dropWhile isspace s)"] by auto
  then show ?thesis using set_dropWhileD [of _ isspace s] by blast
qed

lemma parse_dig_no_colon: "ip \<in> set (parse_dig out) \<Longrightarrow> CHR '':'' \<notin> set ip"
  using set_strip by (auto simp: parse_dig_def contains_char)

lemma nslookup_loop_no_colon:
  "nslookup_loop lines ips = Inr r \<Longrightarrow> \<forall>ip \<in> set ips. CHR '':'' \<notin> set ip
     \<Longrightarrow> \<forall>ip \<in> set r. CHR '':'' \<notin> set ip"
proof (induction lines arbitrary: ips)
  case Nil
  then show ?case by simp
next
  case (Cons raw lines)
  show ?case
  proof (cases "prefix ''address:'' (lower (strip raw))")
    case False
    then have "nslookup_loop lines ips = Inr r"
      using Cons.prems(1) by (simp add: Let_def)
    then show ?thesis using Cons.IH Cons.prems(2) by blast
  next
    case True
    from item_address [OF True] obtain rest
      where rest: "item (split_once (CHR '':'') (strip raw)) 1 = Inr rest" by blast
    show ?thesis
    proof (cases "strip rest \<noteq> [] \<and> CHR '':'' \<notin> set (strip rest)")
      case keep: True
      then have "nslookup_loop lines (ips @ [strip rest]) = Inr r"
        using Cons.prems(1) True rest by (simp add: Let_def contains_char)
      moreover have "\<forall>ip \<in> set (ips @ [strip rest]). CHR '':'' \<notin> set ip"
        using keep Cons.prems(2) by simp
      ultimately show ?thesis using Cons.IH by blast
    next
      case False
      then have "nslookup_loop lines ips = Inr r"
        using Cons.prems(1) True rest by (auto simp: Let_def contains_char)
      then show ?thesis using Cons.IH Cons.prems(2) by blast
    qed
  qed
qed

lemma resolve_with_dig_no_colon:
  "fst (resolve_with_dig domain dns w) = Inr r \<Longrightarrow> ip \<in> set r \<Longrightarrow> CHR '':'' \<notin> set ip"
  using parse_dig_no_colon
  by (auto simp: resolve_with_dig_def check_output_def split: if_splits sum.splits)

lemma resolve_with_nslookup_no_colon:
  "fst (resolve_with_nslookup domain dns w) = Inr r \<Longrightarrow> ip \<in> set r \<Longrightarrow> CHR '':'' \<notin> set ip"
  using nslookup_loop_no_colon [of _ "[]" r]
  by (auto simp: resolve_with_nslookup_def check_output_def split: if_splits sum.splits)

lemma resolve_domain_sorted_distinct:
  "fst (resolve_domain domain servers w) = Inr ips \<Longrightarrow> sorted ips \<and> distinct ips"
  using resolve_domain_chain [of domain servers w] by auto

lemma colon_only_from_system_resolver:
  assumes sys: "\<And>v r ip. fst (resolve_system domain v) = Inr r \<Longrightarrow> ip \<in> set r
                  \<Longrightarrow> CHR '':'' \<notin> set ip"
  shows "fst (resolve_domain domain servers w) = Inr ips \<Longrightarrow> ip \<in> set ips
           \<Longrightarrow> CHR '':'' \<notin> set ip"
proof (induction servers arbitrary: w)
  case Nil
  obtain r where r: "resolve_system domain w
      = (Inr r, w\<lparr>history := history w @ launched w domain (System r)\<rparr>)"
    using resolve_system_frame by blast
  then have "ips = sort (remdups r)" using Nil(1) by (simp add: noted_def)
  then have "ip \<in> set r" using Nil(2) by simp
  then show ?case using sys [of w r ip] r by simp
next
  case (Cons dns rest)
  obtain r1 where dig: "resolve_with_dig domain dns w
      = (Inr r1, w\<lparr>history := history w @ launched w domain (Dig dns r1)\<rparr>)"
    using resolve_with_dig_frame by blast
  let ?w1 = "after w domain [Dig dns r1]"
  have noted1: "noted (Dig dns) (resolve_with_dig domain dns w) = (Inr r1, ?w1)"
    using dig by (simp add: noted_def after_def)
  show ?case
  proof (cases "r1 = []")
    case False
    then have "ips = sort (remdups r1)" using noted1 Cons.prems(1) by simp
    then have "ip \<in> set r1" using Cons.prems(2) by simp
    then show ?thesis using resolve_with_dig_no_colon [of domain dns w r1 ip] dig by simp
  next
    case True
    obtain r2 where ns: "resolve_with_nslookup domain dns ?w1
        = (Inr r2, ?w1\<lparr>history := history ?w1 @ launched ?w1 domain (Nslookup dns r2)\<rparr>)"
      using resolve_with_nslookup_frame by blast
    let ?w2 = "after w domain [Dig dns [], Nslookup dns r2]"
    have noted2: "noted (Nslookup dns) (resolve_with_nslookup domain dns ?w1) = (Inr r2, ?w2)"
      using ns True by (simp add: noted_def after_def)
    show ?thesis
    proof (cases "r2 = []")
      case False
      then have "ips = sort (remdups r2)" using noted1 noted2 True Cons.prems(1) by simp
      then have "ip \<in> set r2" using Cons.prems(2) by simp
      then show ?thesis
        using resolve_with_nslookup_no_colon [of domain dns ?w1 r2 ip] ns by simp
    next
      case empty: True
      have "resolve_domain domain (dns # rest) w = resolve_domain domain rest ?w2"
        using noted1 noted2 True empty by simp
      then show ?thesis using Cons.IH [of ?w2] Cons.prems by simp
    qed
  qed
qed

text \<open>
  C2. With no server to ask, the chain returns what the system resolver found. That
  resolver keeps every first field with a dot in it, so an IPv4-mapped IPv6 address
  comes back, colons included.
\<close>

theorem fallback_returns_address_with_colon:
  "fst (resolve_domain ''api.steampowered.com'' [] mapped_world) = Inr [''::ffff:203.0.113.5'']
   \<and> contains '':'' ''::ffff:203.0.113.5''"
  by code_simp

section \<open>The verifier\<close>





lemma system_resolve_print [simp]: "system_resolve domain (print m w) = system_resolve domain w"
  by (simp add: system_resolve_def print_def)




section \<open>The updater\<close>







lemma same_env_print [simp]: "same_env (print m w) w"
  by (simp add: same_env_def print_def)








lemma copy2_succeeds_frame [simp]:
  "copy2_succeeds src dst (w\<lparr>fs_ops := ops\<rparr>) = copy2_succeeds src dst w"
  by (simp add: copy2_succeeds_def)














text \<open>
  C3. A first run writes the entry line \<open>203.0.113.5<TAB>steamcommunity.com\<close>. The
  filter applied to that output removes nothing, and after a second run the hosts
  file holds the entry line twice, in two managed blocks.
\<close>

theorem second_run_keeps_first_entries:
  "files (snd (main update_args dig_world)) [''etc'', ''hosts'']
     = Some (join newline
              [''127.0.0.1 localhost'',
               header ''20260101_120000'',
               ''203.0.113.5'' @ tab @ ''steamcommunity.com'',
               footer] @ newline)
   \<and> filter_hosts (join newline
              [''127.0.0.1 localhost'',
               header ''20260101_120000'',
               ''203.0.113.5'' @ tab @ ''steamcommunity.com'',
               footer] @ newline)
     = ([''127.0.0.1 localhost'',
         header ''20260101_120000'',
         ''203.0.113.5'' @ tab @ ''steamcommunity.com'',
         footer], 0)
   \<and> files (snd (main update_args
               ((snd (main update_args dig_world))\<lparr>now := ''20260101_120500''\<rparr>)))
         [''etc'', ''hosts'']
     = Some (join newline
              [''127.0.0.1 localhost'',
               header ''20260101_120000'',
               ''203.0.113.5'' @ tab @ ''steamcommunity.com'',
               footer,
               header ''20260101_120500'',
               ''203.0.113.5'' @ tab @ ''steamcommunity.com'',
               footer] @ newline)"
  by code_simp

end
